theory Spec2Isabelle
  imports Complex_Main
begin

section \<open>The time-window parser (database.py, parse\_time\_string)\<close>

text \<open>
  A Python \<open>str\<close> is a sequence of code points. The model covers the code points
  U+0000 to U+00FF: one \<open>char\<close> is one code point of that range, so a \<open>string\<close> is a
  Python string over Latin-1. The library functions the parser calls are written out for
  that range:
  \<^item> \<open>str.lower\<close> maps A..Z and the accented capitals U+00C0..U+00DE (without the
    multiplication sign U+00D7) 32 places up, and leaves every other character alone;
  \<^item> the regular expression class \<open>\d\<close> holds the characters of category Nd, which in
    this range are 0..9;
  \<^item> \<open>str.isdigit\<close> holds of a non-empty string all of whose characters have the digit
    property: 0..9 and the superscripts U+00B2, U+00B3, U+00B9;
  \<^item> \<open>int\<close> of a string of decimal digits is its value, as long as the string has at
    most 4300 digits (CPython's default limit on the conversion, which counts leading
    zeros); \<open>int\<close> of a longer string of digits, or of a string holding a superscript
    digit, raises ValueError.
\<close>

datatype py_error = ValueError

definition lower_char :: "char \<Rightarrow> char" where
  "lower_char c =
     (let n = (of_char c :: nat)
      in if (65 \<le> n \<and> n \<le> 90) \<or> (192 \<le> n \<and> n \<le> 222 \<and> n \<noteq> 215)
         then char_of (n + 32) else c)"

definition lower :: "string \<Rightarrow> string" where
  "lower s = map lower_char s"

definition is_decimal :: "char \<Rightarrow> bool" where
  "is_decimal c = (let n = (of_char c :: nat) in 48 \<le> n \<and> n \<le> 57)"

definition is_digit_char :: "char \<Rightarrow> bool" where
  "is_digit_char c =
     (let n = (of_char c :: nat) in (48 \<le> n \<and> n \<le> 57) \<or> n = 178 \<or> n = 179 \<or> n = 185)"

definition isdigit :: "string \<Rightarrow> bool" where
  "isdigit s = (s \<noteq> [] \<and> list_all is_digit_char s)"

definition digit_value :: "char \<Rightarrow> int" where
  "digit_value c = int (of_char c) - 48"

text \<open>
  \<open>int(s)\<close>, on the strings the parser passes to it: a group matched by \<open>\d+\<close>, or a
  string for which \<open>isdigit\<close> holds.
\<close>

definition int_max_str_digits :: nat where
  "int_max_str_digits = 4300"

definition py_int :: "string \<Rightarrow> py_error + int" where
  "py_int s =
     (if s \<noteq> [] \<and> list_all is_decimal s \<and> length s \<le> int_max_str_digits
      then Inr (foldl (\<lambda>acc c. 10 * acc + digit_value c) 0 s)
      else Inl ValueError)"

text \<open>
  \<open>re.search(r'(\d+)X', s)\<close> for a unit letter \<open>X\<close>: the leftmost position at which
  the pattern matches. At a position the greedy \<open>\d+\<close> takes the whole run of digits
  that starts there, and the next character must be the unit letter (a shorter run is
  followed by a digit, so backtracking finds nothing more). The result is group 1.
\<close>

definition match_at :: "char \<Rightarrow> string \<Rightarrow> string option" where
  "match_at unit s =
     (let ds = takeWhile is_decimal s; rest = dropWhile is_decimal s
      in if ds \<noteq> [] \<and> rest \<noteq> [] \<and> hd rest = unit then Some ds else None)"

fun re_search :: "char \<Rightarrow> string \<Rightarrow> string option" where
  "re_search unit [] = None"
| "re_search unit (c # cs) =
     (case match_at unit (c # cs) of
        Some g \<Rightarrow> Some g
      | None \<Rightarrow> re_search unit cs)"

text \<open>
  \<open>if match: total_minutes += int(match.group(1)) * factor\<close>
\<close>

definition add_component :: "string option \<Rightarrow> int \<Rightarrow> int \<Rightarrow> py_error + int" where
  "add_component m factor total_minutes =
     (case m of
        None \<Rightarrow> Inr total_minutes
      | Some g \<Rightarrow>
          (case py_int g of
             Inl e \<Rightarrow> Inl e
           | Inr v \<Rightarrow> Inr (total_minutes + v * factor)))"

definition positive_or_none :: "int \<Rightarrow> int option" where
  "positive_or_none total_minutes = (if total_minutes > 0 then Some total_minutes else None)"

definition parse_time_string :: "string \<Rightarrow> py_error + int option" where
  "parse_time_string time_str =
     (if time_str = [] \<or> lower time_str = ''none'' then Inr None
      else
        let s = lower time_str;
            hour_match = re_search (CHR ''h'') s;
            minute_match = re_search (CHR ''m'') s;
            day_match = re_search (CHR ''d'') s
        in case add_component hour_match 60 0 of
             Inl e \<Rightarrow> Inl e
           | Inr t1 \<Rightarrow>
              (case add_component minute_match 1 t1 of
                 Inl e \<Rightarrow> Inl e
               | Inr t2 \<Rightarrow>
                  (case add_component day_match (24 * 60) t2 of
                     Inl e \<Rightarrow> Inl e
                   | Inr t3 \<Rightarrow>
                      if hour_match \<noteq> None \<or> minute_match \<noteq> None \<or> day_match \<noteq> None
                      then Inr (positive_or_none t3)
                      else if isdigit s
                      then (case py_int s of
                              Inl e \<Rightarrow> Inl e
                            | Inr n \<Rightarrow> Inr (positive_or_none n))
                      else Inr None)))"

section \<open>The ledger store (database.py)\<close>

subsection \<open>Tables\<close>

text \<open>
  One record per table of the schema that \<open>init_db\<close> creates, with the columns under
  their own names; a table with a primary key is a map from the key to the row. TEXT
  columns are strings, a nullable column is an option. An INTEGER of SQLite has 64 bits:
  \<^item> a Python integer outside that range cannot be bound to a statement: the driver
    raises OverflowError, which the \<open>except Exception\<close> of every function catches, with
    nothing committed;
  \<^item> an addition of two integers whose sum is outside that range is done in floating
    point, and the column stores the result as a REAL, or as the integer it equals when
    that integer is strictly inside the range. The balance and the lifetime-earned
    counter, which the functions add to, are therefore either an integer or a REAL.
  The model is of the statements the functions issue and of the triggers of the schema;
  a fault of the storage engine itself (a lock timeout, a full disk) is outside it.
  Foreign keys are declared in the schema, but enforced only on the connection of
  \<open>init_db\<close>, which alone sets the pragma; on the connections of the functions below a
  delete removes the named row and nothing else.
\<close>

definition int64 :: "int \<Rightarrow> bool" where
  "int64 i = (- (2 ^ 63) \<le> i \<and> i < 2 ^ 63)"

text \<open>The text of the OverflowError of the driver, which two functions return.\<close>

definition too_large :: string where
  "too_large = ''Python int too large to convert to SQLite INTEGER''"

datatype sql_value = SqlInteger int | SqlReal real

record user_row =
  username :: string
  credits :: sql_value
  joined_date :: string
  referrer_id :: "int option"
  is_banned :: int
  total_earned :: sql_value
  last_active :: string

record admin_row =
  level :: string
  added_by :: int
  added_date :: string

record code_row =
  amount :: int
  max_uses :: int
  current_uses :: int
  expiry_minutes :: "int option"
  created_date :: string
  is_active :: int

record redeem_log =
  log_user_id :: int
  log_code :: string
  claimed_date :: string

record lookup_log =
  lookup_user_id :: int
  api_type :: string
  input_data :: string
  lookup_result :: string
  lookup_date :: string

record db =
  users :: "int \<rightharpoonup> user_row"
  admins :: "int \<rightharpoonup> admin_row"
  redeem_codes :: "string \<rightharpoonup> code_row"
  redeem_logs :: "redeem_log list"
  lookup_logs :: "lookup_log list"

definition empty_db :: db where
  "empty_db = \<lparr>users = Map.empty, admins = Map.empty, redeem_codes = Map.empty,
               redeem_logs = [], lookup_logs = []\<rparr>"

subsection \<open>The clock and the date library\<close>

text \<open>
  What an operation reads from outside the database. A Python \<open>datetime\<close> is a count
  of microseconds since 0001-01-01T00:00:00, from 0 to \<open>datetime_max\<close>, naive or
  carrying a time zone.
  \<^item> \<open>now_dt\<close> is \<open>datetime.now()\<close> (naive) and \<open>now_iso\<close> its \<open>isoformat()\<close>; an
    operation reads the clock once;
  \<^item> \<open>fromisoformat\<close> is \<open>datetime.fromisoformat\<close>, with \<open>None\<close> where it raises;
  \<^item> \<open>sql_now\<close> is SQLite's \<open>datetime('now')\<close> and \<open>sql_elapsed created n\<close> its
    comparison \<open>datetime(created, '+n minutes') < datetime('now')\<close>;
  \<^item> \<open>float_add v d\<close> is the floating-point sum that SQLite computes for \<open>v + d\<close>
    when the integer addition is not possible, with its rounding.
\<close>

datatype pydatetime = Naive int | Aware int

record env =
  now_iso :: string
  now_dt :: int
  fromisoformat :: "string \<Rightarrow> pydatetime option"
  sql_now :: string
  sql_elapsed :: "string \<Rightarrow> int \<Rightarrow> bool"
  float_add :: "sql_value \<Rightarrow> int \<Rightarrow> real"

text \<open>\<open>datetime.max\<close>, 9999-12-31T23:59:59.999999, in microseconds.\<close>

definition datetime_max :: int where
  "datetime_max = 3652059 * 86400 * 1000000 - 1"

subsection \<open>Statements and triggers\<close>

text \<open>
  What an INTEGER column keeps of a floating-point result: the integer it equals, when
  there is one strictly between the least and the greatest 64-bit integer, and the REAL
  otherwise.
\<close>

definition integer_affinity :: "real \<Rightarrow> sql_value" where
  "integer_affinity x =
     (if x = of_int \<lfloor>x\<rfloor> \<and> - (2 ^ 63) < \<lfloor>x\<rfloor> \<and> \<lfloor>x\<rfloor> < 2 ^ 63 - 1
      then SqlInteger \<lfloor>x\<rfloor> else SqlReal x)"

text \<open>\<open>column + ?\<close> in a SET clause, for a bound 64-bit integer.\<close>

definition sql_add :: "env \<Rightarrow> sql_value \<Rightarrow> int \<Rightarrow> sql_value" where
  "sql_add e v d =
     (case v of
        SqlInteger i \<Rightarrow>
          if int64 (i + d) then SqlInteger (i + d) else integer_affinity (float_add e v d)
      | SqlReal x \<Rightarrow> integer_affinity (float_add e v d))"

text \<open>\<open>UPDATE users SET ... WHERE user_id = ?\<close>: no row, no change.\<close>

definition sql_update_user ::
    "int \<Rightarrow> (user_row \<Rightarrow> user_row) \<Rightarrow> (int \<rightharpoonup> user_row) \<Rightarrow> (int \<rightharpoonup> user_row)" where
  "sql_update_user uid f us = (case us uid of None \<Rightarrow> us | Some u \<Rightarrow> us(uid \<mapsto> f u))"

text \<open>
  Trigger \<open>update_last_active_trigger\<close>, AFTER UPDATE OF credits ON users, for each
  updated row: \<open>SET last_active = datetime('now')\<close>.
\<close>

definition update_last_active_trigger ::
    "env \<Rightarrow> int \<Rightarrow> (int \<rightharpoonup> user_row) \<Rightarrow> (int \<rightharpoonup> user_row)" where
  "update_last_active_trigger e uid us =
     sql_update_user uid (\<lambda>u. u\<lparr>last_active := sql_now e\<rparr>) us"

text \<open>An UPDATE of one user's row that assigns \<open>credits\<close>, followed by the trigger.\<close>

definition sql_update_credits ::
    "env \<Rightarrow> int \<Rightarrow> (user_row \<Rightarrow> user_row) \<Rightarrow> (int \<rightharpoonup> user_row) \<Rightarrow> (int \<rightharpoonup> user_row)" where
  "sql_update_credits e uid f us = update_last_active_trigger e uid (sql_update_user uid f us)"

text \<open>\<open>UPDATE redeem_codes SET ... WHERE code = ?\<close>\<close>

definition sql_update_code ::
    "string \<Rightarrow> (code_row \<Rightarrow> code_row) \<Rightarrow> (string \<rightharpoonup> code_row) \<Rightarrow> (string \<rightharpoonup> code_row)" where
  "sql_update_code code f cs = (case cs code of None \<Rightarrow> cs | Some r \<Rightarrow> cs(code \<mapsto> f r))"

text \<open>
  \<open>expiry_minutes IS NOT NULL AND expiry_minutes > 0 AND
  datetime(created_date, '+' || expiry_minutes || ' minutes') < datetime('now')\<close>
\<close>

definition sql_expired :: "env \<Rightarrow> code_row \<Rightarrow> bool" where
  "sql_expired e r =
     (case expiry_minutes r of
        None \<Rightarrow> False
      | Some n \<Rightarrow> n > 0 \<and> sql_elapsed e (created_date r) n)"

text \<open>
  Trigger \<open>cleanup_expired_codes\<close>, AFTER INSERT ON redeem\_codes: every row that is
  expired by SQLite's clock gets \<open>is_active = 0\<close>.
\<close>

definition cleanup_expired_codes_trigger ::
    "env \<Rightarrow> (string \<rightharpoonup> code_row) \<Rightarrow> (string \<rightharpoonup> code_row)" where
  "cleanup_expired_codes_trigger e cs =
     (\<lambda>c. map_option (\<lambda>r. if sql_expired e r then r\<lparr>is_active := 0\<rparr> else r) (cs c))"

subsection \<open>Users\<close>

text \<open>
  \<open>add_user(user_id, username, referrer_id=None)\<close>. The test \<open>if referrer_id:\<close> is
  Python truthiness: it fails for \<open>None\<close> and for the integer 0. The INSERT stores the
  referrer as it was passed. The first SELECT binds the identity and the second the
  referrer: one that is outside 64 bits raises, and the function returns \<open>False\<close>.
\<close>

definition add_user :: "env \<Rightarrow> int \<Rightarrow> string option \<Rightarrow> int option \<Rightarrow> db \<Rightarrow> bool \<times> db" where
  "add_user e user_id username' referrer_id' s =
     (if \<not> int64 user_id then (False, s)
      else if users s user_id \<noteq> None then (False, s)
      else
        let current_time = now_iso e;
            username_clean = (case username' of None \<Rightarrow> [] | Some n \<Rightarrow> n);
            insert_user = (\<lambda>users1.
              (True,
               s\<lparr>users := users1(user_id \<mapsto>
                    \<lparr>username = username_clean, credits = SqlInteger 5,
                     joined_date = current_time, referrer_id = referrer_id', is_banned = 0,
                     total_earned = SqlInteger 0, last_active = current_time\<rparr>)\<rparr>))
        in case referrer_id' of
             None \<Rightarrow> insert_user (users s)
           | Some r \<Rightarrow>
               if r = 0 then insert_user (users s)
               else if \<not> int64 r then (False, s)
               else if users s r \<noteq> None
               then insert_user
                      (sql_update_credits e r
                         (\<lambda>u. u\<lparr>credits := sql_add e (credits u) 3,
                                 total_earned := sql_add e (total_earned u) 3\<rparr>)
                         (users s))
               else insert_user (users s))"

text \<open>
  The UPDATE of \<open>update_credits\<close> and of the loop of \<open>bulk_update_credits\<close>, for an
  identity and an amount that have been bound.
\<close>

definition credit_user :: "env \<Rightarrow> int \<Rightarrow> int \<Rightarrow> (int \<rightharpoonup> user_row) \<Rightarrow> (int \<rightharpoonup> user_row)" where
  "credit_user e user_id amount' us =
     (let current_time = now_iso e
      in if amount' > 0
         then sql_update_credits e user_id
                (\<lambda>u. u\<lparr>credits := sql_add e (credits u) amount',
                        total_earned := sql_add e (total_earned u) amount',
                        last_active := current_time\<rparr>) us
         else sql_update_credits e user_id
                (\<lambda>u. u\<lparr>credits := sql_add e (credits u) amount',
                        last_active := current_time\<rparr>) us)"

text \<open>
  \<open>update_credits(user_id, amount)\<close>: one UPDATE that binds both arguments; when one of
  them is outside 64 bits the function returns \<open>False\<close>.
\<close>

definition update_credits :: "env \<Rightarrow> int \<Rightarrow> int \<Rightarrow> db \<Rightarrow> bool \<times> db" where
  "update_credits e user_id amount' s =
     (if int64 user_id \<and> int64 amount'
      then (True, s\<lparr>users := credit_user e user_id amount' (users s)\<rparr>)
      else (False, s))"

text \<open>
  \<open>bulk_update_credits\<close>: one transaction; an UPDATE that cannot bind its arguments
  rolls all of them back.
\<close>

definition bulk_update_credits :: "env \<Rightarrow> int list \<Rightarrow> int \<Rightarrow> db \<Rightarrow> bool \<times> db" where
  "bulk_update_credits e user_ids amount' s =
     (if list_all int64 user_ids \<and> (user_ids = [] \<or> int64 amount')
      then (True,
            s\<lparr>users := foldl (\<lambda>us user_id. credit_user e user_id amount' us)
                             (users s) user_ids\<rparr>)
      else (False, s))"

definition set_ban_status :: "env \<Rightarrow> int \<Rightarrow> int \<Rightarrow> db \<Rightarrow> bool \<times> db" where
  "set_ban_status e user_id status s =
     (if int64 user_id \<and> int64 status
      then (True, s\<lparr>users := sql_update_user user_id
                     (\<lambda>u. u\<lparr>is_banned := status, last_active := now_iso e\<rparr>) (users s)\<rparr>)
      else (False, s))"

definition delete_user :: "int \<Rightarrow> db \<Rightarrow> bool \<times> db" where
  "delete_user user_id s =
     (if int64 user_id then (True, s\<lparr>users := (users s)(user_id := None)\<rparr>) else (False, s))"

definition reset_user_credits :: "env \<Rightarrow> int \<Rightarrow> db \<Rightarrow> bool \<times> db" where
  "reset_user_credits e user_id s =
     (if int64 user_id
      then (True, s\<lparr>users := sql_update_credits e user_id
                     (\<lambda>u. u\<lparr>credits := SqlInteger 0, last_active := now_iso e\<rparr>) (users s)\<rparr>)
      else (False, s))"

definition update_last_active :: "env \<Rightarrow> int \<Rightarrow> db \<Rightarrow> bool \<times> db" where
  "update_last_active e user_id s =
     (if int64 user_id
      then (True, s\<lparr>users := sql_update_user user_id
                     (\<lambda>u. u\<lparr>last_active := now_iso e\<rparr>) (users s)\<rparr>)
      else (False, s))"

text \<open>
  \<open>add_admin\<close> inserts a missing user with the column defaults. When the identity is
  already an administrator it returns before the commit, and the insert is lost with
  the connection.
\<close>

definition add_admin :: "env \<Rightarrow> int \<Rightarrow> string \<Rightarrow> db \<Rightarrow> (bool \<times> string) \<times> db" where
  "add_admin e user_id level' s =
     (if \<not> int64 user_id then ((False, ''Error: '' @ too_large), s)
      else
        let users1 =
              (if users s user_id = None
               then (users s)(user_id \<mapsto>
                      \<lparr>username = ''admin_user'', credits = SqlInteger 5,
                       joined_date = sql_now e, referrer_id = None, is_banned = 0,
                       total_earned = SqlInteger 0, last_active = now_iso e\<rparr>)
               else users s)
        in if admins s user_id \<noteq> None then ((False, ''User is already an admin''), s)
           else ((True, ''Admin added successfully''),
                 s\<lparr>users := users1,
                   admins := (admins s)(user_id \<mapsto>
                      \<lparr>level = level', added_by = 0, added_date = now_iso e\<rparr>)\<rparr>))"

definition remove_admin :: "int \<Rightarrow> db \<Rightarrow> bool \<times> db" where
  "remove_admin user_id s =
     (if int64 user_id then (True, s\<lparr>admins := (admins s)(user_id := None)\<rparr>) else (False, s))"

text \<open>\<open>log_lookup\<close>: \<open>input_data[:500]\<close> and \<open>str(result)[:2000]\<close>.\<close>

definition log_lookup :: "env \<Rightarrow> int \<Rightarrow> string \<Rightarrow> string \<Rightarrow> string \<Rightarrow> db \<Rightarrow> bool \<times> db" where
  "log_lookup e user_id api_type' input_data' result' s =
     (if int64 user_id
      then (True, s\<lparr>lookup_logs := lookup_logs s @
              [\<lparr>lookup_user_id = user_id, api_type = api_type',
                input_data = take 500 input_data', lookup_result = take 2000 result',
                lookup_date = now_iso e\<rparr>]\<rparr>)
      else (False, s))"

text \<open>
  The registration path of \<open>start_command\<close> (main.py), for a user \<open>get_user\<close> does not
  find, after the referrer has been read from the start link: a referrer equal to the
  new identity is dropped, \<open>add_user\<close> is called, and a referrer that passes
  \<open>if referrer_id:\<close> is credited by \<open>update_credits(referrer_id, 3)\<close>.
\<close>

definition start_register :: "env \<Rightarrow> int \<Rightarrow> string option \<Rightarrow> int option \<Rightarrow> db \<Rightarrow> db" where
  "start_register e user_id username' link_referrer s =
     (if users s user_id \<noteq> None then s
      else
        let referrer_id' = (if link_referrer = Some user_id then None else link_referrer);
            s1 = snd (add_user e user_id username' referrer_id' s)
        in case referrer_id' of
             None \<Rightarrow> s1
           | Some r \<Rightarrow> if r \<noteq> 0 then snd (update_credits e r 3 s1) else s1)"

subsection \<open>Codes\<close>

text \<open>
  \<open>create_redeem_code(code, amount, max_uses, expiry_minutes=None)\<close>: the existence
  check comes first, then the two validations; the INSERT binds the three numbers, and
  when one of them is outside 64 bits the function returns the text of the exception;
  the INSERT fires the cleanup trigger.
\<close>

definition create_redeem_code ::
    "env \<Rightarrow> string \<Rightarrow> int \<Rightarrow> int \<Rightarrow> int option \<Rightarrow> db \<Rightarrow> (bool \<times> string) \<times> db" where
  "create_redeem_code e code amount' max_uses' expiry_minutes' s =
     (if redeem_codes s code \<noteq> None then ((False, ''Code already exists''), s)
      else if amount' \<le> 0 then ((False, ''Amount must be positive''), s)
      else if max_uses' \<le> 0 then ((False, ''Max uses must be positive''), s)
      else if \<not> (int64 amount' \<and> int64 max_uses'
                 \<and> (case expiry_minutes' of None \<Rightarrow> True | Some n \<Rightarrow> int64 n))
      then ((False, ''Error: '' @ too_large), s)
      else ((True, ''Code created successfully''),
            s\<lparr>redeem_codes := cleanup_expired_codes_trigger e
                 ((redeem_codes s)(code \<mapsto>
                    \<lparr>amount = amount', max_uses = max_uses', current_uses = 0,
                     expiry_minutes = expiry_minutes', created_date = now_iso e,
                     is_active = 1\<rparr>))\<rparr>))"

text \<open>
  The body of the \<open>try\<close> of the expiry check of \<open>redeem_code_db\<close>, entered when
  \<open>expiry_minutes\<close> is set and positive. \<open>None\<close>: an exception was raised (by
  \<open>fromisoformat\<close>, by the addition when the sum is past \<open>datetime.max\<close>, or by the
  comparison of the naive \<open>datetime.now()\<close> with a datetime that carries a time zone),
  which the \<open>except\<close> logs. \<open>Some b\<close>: the comparison \<open>datetime.now() > expiry_dt\<close>
  gave \<open>b\<close>. A \<open>timedelta\<close> too large to build is too large to add to a datetime, so
  the test of the sum covers both overflows.
\<close>

definition check_expiry :: "env \<Rightarrow> string \<Rightarrow> int \<Rightarrow> bool option" where
  "check_expiry e created_date' expiry_minutes' =
     (case fromisoformat e created_date' of
        None \<Rightarrow> None
      | Some (Aware created_dt) \<Rightarrow> None
      | Some (Naive created_dt) \<Rightarrow>
          let expiry_dt = created_dt + expiry_minutes' * 60000000
          in if expiry_dt > datetime_max then None else Some (now_dt e > expiry_dt))"

text \<open>
  \<open>redeem_code_db\<close> returns the credited amount, an integer, or a string: the name
  of the check that failed, or \<open>error: \<close> and the text of an exception. The first
  SELECT binds the identity. An identity that has a row is a 64-bit integer, as every key
  of the table is, and is bound; one without a row is bound and not found, or, when it
  is outside 64 bits, raises, and the \<open>except\<close> rolls back and returns the error.
\<close>

datatype py_value = PyInt int | PyStr string

definition already_claimed :: "db \<Rightarrow> int \<Rightarrow> string \<Rightarrow> bool" where
  "already_claimed s user_id code =
     list_ex (\<lambda>l. log_user_id l = user_id \<and> log_code l = code) (redeem_logs s)"

definition is_expired :: "env \<Rightarrow> code_row \<Rightarrow> bool" where
  "is_expired e r =
     (case expiry_minutes r of
        None \<Rightarrow> False
      | Some n \<Rightarrow> n > 0 \<and> check_expiry e (created_date r) n = Some True)"

definition redeem_code_db :: "env \<Rightarrow> int \<Rightarrow> string \<Rightarrow> db \<Rightarrow> py_value \<times> db" where
  "redeem_code_db e user_id code s =
     (if users s user_id = None
      then (if int64 user_id then (PyStr ''user_not_found'', s)
            else (PyStr (''error: '' @ too_large), s))
      else if already_claimed s user_id code then (PyStr ''already_claimed'', s)
      else
        case redeem_codes s code of
          None \<Rightarrow> (PyStr ''invalid'', s)
        | Some r \<Rightarrow>
            if is_active r = 0 then (PyStr ''inactive'', s)
            else if current_uses r \<ge> max_uses r then (PyStr ''limit_reached'', s)
            else if is_expired e r then (PyStr ''expired'', s)
            else
              (PyInt (amount r),
               s\<lparr>redeem_codes := sql_update_code code
                    (\<lambda>c. c\<lparr>current_uses := current_uses c + 1\<rparr>) (redeem_codes s),
                 users := sql_update_credits e user_id
                    (\<lambda>u. u\<lparr>credits := sql_add e (credits u) (amount r),
                            total_earned := sql_add e (total_earned u) (amount r),
                            last_active := now_iso e\<rparr>) (users s),
                 redeem_logs := redeem_logs s @
                    [\<lparr>log_user_id = user_id, log_code = code, claimed_date = now_iso e\<rparr>]\<rparr>))"

definition delete_redeem_code :: "string \<Rightarrow> db \<Rightarrow> bool \<times> db" where
  "delete_redeem_code code s = (True, s\<lparr>redeem_codes := (redeem_codes s)(code := None)\<rparr>)"

definition deactivate_code :: "string \<Rightarrow> db \<Rightarrow> (bool \<times> string) \<times> db" where
  "deactivate_code code s =
     (if redeem_codes s code = None then ((False, ''Code not found''), s)
      else ((True, ''Code deactivated successfully''),
            s\<lparr>redeem_codes := sql_update_code code (\<lambda>r. r\<lparr>is_active := 0\<rparr>) (redeem_codes s)\<rparr>))"

text \<open>
  The sweep \<open>cleanup_expired_codes\<close>: the trigger's condition and \<open>is_active = 1\<close>.
  Only its effect on the table is modelled, not the count of changed rows it returns.
\<close>

definition cleanup_expired_codes :: "env \<Rightarrow> db \<Rightarrow> db" where
  "cleanup_expired_codes e s =
     s\<lparr>redeem_codes :=
         (\<lambda>c. map_option
                 (\<lambda>r. if is_active r = 1 \<and> sql_expired e r then r\<lparr>is_active := 0\<rparr> else r)
                 (redeem_codes s c))\<rparr>"

subsection \<open>Every writing operation of the store\<close>

datatype op =
    AddUser int "string option" "int option"
  | UpdateCredits int int
  | BulkUpdateCredits "int list" int
  | SetBanStatus int int
  | DeleteUser int
  | ResetUserCredits int
  | UpdateLastActive int
  | AddAdmin int string
  | RemoveAdmin int
  | LogLookup int string string string
  | CreateRedeemCode string int int "int option"
  | RedeemCode int string
  | DeleteRedeemCode string
  | DeactivateCode string
  | CleanupExpiredCodes

fun step :: "env \<Rightarrow> op \<Rightarrow> db \<Rightarrow> db" where
  "step e (AddUser u n r) s = snd (add_user e u n r s)"
| "step e (UpdateCredits u a) s = snd (update_credits e u a s)"
| "step e (BulkUpdateCredits us a) s = snd (bulk_update_credits e us a s)"
| "step e (SetBanStatus u b) s = snd (set_ban_status e u b s)"
| "step e (DeleteUser u) s = snd (delete_user u s)"
| "step e (ResetUserCredits u) s = snd (reset_user_credits e u s)"
| "step e (UpdateLastActive u) s = snd (update_last_active e u s)"
| "step e (AddAdmin u l) s = snd (add_admin e u l s)"
| "step e (RemoveAdmin u) s = snd (remove_admin u s)"
| "step e (LogLookup u a i r) s = snd (log_lookup e u a i r s)"
| "step e (CreateRedeemCode c a m x) s = snd (create_redeem_code e c a m x s)"
| "step e (RedeemCode u c) s = snd (redeem_code_db e u c s)"
| "step e (DeleteRedeemCode c) s = snd (delete_redeem_code c s)"
| "step e (DeactivateCode c) s = snd (deactivate_code c s)"
| "step e CleanupExpiredCodes s = cleanup_expired_codes e s"

text \<open>A history: operations in order, each with the clock it ran under.\<close>

fun run :: "(env \<times> op) list \<Rightarrow> db \<Rightarrow> db" where
  "run [] s = s"
| "run ((e, p) # ps) s = run ps (step e p s)"

subsection \<open>The invariants\<close>

text \<open>No code has been used more often than its maximum allows.\<close>

definition rows_uses_bounded :: "(string \<rightharpoonup> code_row) \<Rightarrow> bool" where
  "rows_uses_bounded cs = (\<forall>c r. cs c = Some r \<longrightarrow> current_uses r \<le> max_uses r)"

definition uses_bounded :: "db \<Rightarrow> bool" where
  "uses_bounded s = rows_uses_bounded (redeem_codes s)"

text \<open>No user is stored as their own referrer.\<close>

definition rows_no_self_referrer :: "(int \<rightharpoonup> user_row) \<Rightarrow> bool" where
  "rows_no_self_referrer us = (\<forall>u row. us u = Some row \<longrightarrow> referrer_id row \<noteq> Some u)"

definition no_self_referrer :: "db \<Rightarrow> bool" where
  "no_self_referrer s = rows_no_self_referrer (users s)"

text \<open>An operation that registers a user as their own referrer.\<close>

fun self_referral :: "op \<Rightarrow> bool" where
  "self_referral (AddUser u n r) = (r = Some u)"
| "self_referral _ = False"

subsection \<open>Sample data\<close>

text \<open>
  A clock that stands 90 seconds after the origin, with a date parser that knows the
  origin and nothing else, SQLite's clock in step with it, and a floating-point
  addition that does not round.
\<close>

definition env0 :: env where
  "env0 = \<lparr>now_iso = ''0001-01-01T00:01:30'', now_dt = 90000000,
           fromisoformat = (\<lambda>t. if t = ''0001-01-01T00:00:00'' then Some (Naive 0) else None),
           sql_now = ''0001-01-01 00:01:30'',
           sql_elapsed = (\<lambda>created n. created = ''0001-01-01T00:00:00'' \<and> n < 2),
           float_add = (\<lambda>v d. (case v of SqlInteger i \<Rightarrow> of_int i | SqlReal x \<Rightarrow> x)
                                + of_int d)\<rparr>"

definition alice :: user_row where
  "alice = \<lparr>username = ''alice'', credits = SqlInteger 5, joined_date = ''0001-01-01T00:00:00'',
            referrer_id = None, is_banned = 0, total_earned = SqlInteger 0,
            last_active = ''0001-01-01T00:00:00''\<rparr>"

text \<open>A code without expiry, unused, for two redemptions of 10 credits.\<close>

definition promo :: code_row where
  "promo = \<lparr>amount = 10, max_uses = 2, current_uses = 0, expiry_minutes = None,
            created_date = ''0001-01-01T00:00:00'', is_active = 1\<rparr>"

definition db_promo :: db where
  "db_promo = empty_db\<lparr>users := [1 \<mapsto> alice], redeem_codes := [''PROMO'' \<mapsto> promo]\<rparr>"

text \<open>A code of one minute whose stored creation timestamp is not a date.\<close>

definition flash :: code_row where
  "flash = \<lparr>amount = 4, max_uses = 3, current_uses = 0, expiry_minutes = Some 1,
            created_date = ''soon'', is_active = 1\<rparr>"

definition db_flash :: db where
  "db_flash = empty_db\<lparr>users := [1 \<mapsto> alice], redeem_codes := [''FLASH'' \<mapsto> flash]\<rparr>"

definition bob :: user_row where
  "bob = \<lparr>username = ''bob'', credits = SqlInteger 5, joined_date = ''0001-01-01T00:00:00'',
          referrer_id = Some 1, is_banned = 0, total_earned = SqlInteger 0,
          last_active = ''0001-01-01T00:00:00''\<rparr>"

text \<open>A code for one redemption, which user 1 has made; user 2 has not.\<close>

definition spent :: code_row where
  "spent = \<lparr>amount = 10, max_uses = 1, current_uses = 1, expiry_minutes = None,
            created_date = ''0001-01-01T00:00:00'', is_active = 1\<rparr>"

definition db_spent :: db where
  "db_spent = empty_db\<lparr>users := [1 \<mapsto> alice, 2 \<mapsto> bob], redeem_codes := [''ONCE'' \<mapsto> spent],
                redeem_logs := [\<lparr>log_user_id = 1, log_code = ''ONCE'',
                                 claimed_date = ''0001-01-01T00:00:00''\<rparr>]\<rparr>"




text \<open>A store whose one user has the identity 0, as \<open>/addadmin 0\<close> creates it.\<close>

definition db_zero :: db where
  "db_zero = empty_db\<lparr>users := [0 \<mapsto> alice]\<rparr>"

section \<open>The parser: results\<close>

lemma match_at_decimal:
  "match_at unit s = Some g \<Longrightarrow> g \<noteq> [] \<and> list_all is_decimal g \<and> length g \<le> length s"
proof -
  have "length (takeWhile is_decimal s) \<le> length s"
    by (rule length_takeWhile_le)
  moreover assume "match_at unit s = Some g"
  ultimately show ?thesis
    by (auto simp: match_at_def Let_def list_all_iff split: if_splits dest: set_takeWhileD)
qed

lemma re_search_decimal:
  "re_search unit s = Some g \<Longrightarrow> g \<noteq> [] \<and> list_all is_decimal g \<and> length g \<le> length s"
proof (induction s)
  case Nil
  then show ?case by simp
next
  case (Cons c cs)
  show ?case
  proof (cases "match_at unit (c # cs)")
    case None
    with Cons show ?thesis by auto
  next
    case (Some g')
    with Cons.prems have "g' = g" by simp
    with match_at_decimal [OF Some] show ?thesis by simp
  qed
qed

text \<open>
  A matched group is a string of decimal digits, so its \<open>int\<close> raises only when the
  group is too long.
\<close>

lemma add_component_ok:
  assumes "length s \<le> int_max_str_digits"
  shows "\<exists>t'. add_component (re_search unit s) k t = Inr t'"
proof (cases "re_search unit s")
  case None
  then show ?thesis by (simp add: add_component_def)
next
  case (Some g)
  from re_search_decimal [OF Some] assms show ?thesis
    by (simp add: Some add_component_def py_int_def)
qed

lemma lower_char_digit: "is_digit_char (lower_char c) \<Longrightarrow> is_digit_char c"
  by (auto simp: lower_char_def is_digit_char_def Let_def split: if_splits)

lemma lower_char_decimal: "is_decimal c \<Longrightarrow> lower_char c = c"
  by (auto simp: lower_char_def is_decimal_def Let_def)

text \<open>
  The examples of the specification: \<open>1h30m\<close> is 90 minutes, \<open>2h\<close> is 120, \<open>45\<close> is 45,
  and the empty string, \<open>none\<close> in any letter case, a zero total and a string without
  digits give no expiry. The units are searched for one by one: the days of \<open>1d2h\<close> and
  its hours add up, and the first match of a unit is the one that counts.
\<close>

lemma parse_time_string_examples:
  "parse_time_string ''1h30m'' = Inr (Some 90)"
  "parse_time_string ''2h'' = Inr (Some 120)"
  "parse_time_string ''45'' = Inr (Some 45)"
  "parse_time_string [] = Inr None"
  "parse_time_string ''none'' = Inr None"
  "parse_time_string ''NoNe'' = Inr None"
  "parse_time_string ''0h0m'' = Inr None"
  "parse_time_string ''0'' = Inr None"
  "parse_time_string ''soon'' = Inr None"
  "parse_time_string ''1d2h'' = Inr (Some 1560)"
  "parse_time_string ''1h2h'' = Inr (Some 60)"
  by code_simp+

text \<open>A minute count that the parser returns is positive.\<close>

lemma parse_time_string_positive: "parse_time_string time_str = Inr (Some n) \<Longrightarrow> n > 0"
  by (auto simp: parse_time_string_def Let_def positive_or_none_def split: if_splits sum.splits)

text \<open>
  On a string of at most 4300 characters without superscript digits (every character
  with the digit property is one of 0..9) the parser returns: a minute count or no
  expiry.
\<close>

lemma parse_time_string_returns:
  assumes "\<forall>c \<in> set time_str. is_digit_char c \<longrightarrow> is_decimal c"
    and "length time_str \<le> int_max_str_digits"
  shows "\<exists>r. parse_time_string time_str = Inr r"
proof -
  have len: "length (lower time_str) \<le> int_max_str_digits"
    using assms(2) by (simp add: lower_def)
  have dec: "isdigit (lower time_str) \<Longrightarrow> list_all is_decimal (lower time_str)"
    using assms(1)
    by (auto simp: isdigit_def lower_def list_all_iff lower_char_decimal dest!: lower_char_digit)
  obtain t1 where t1: "add_component (re_search (CHR ''h'') (lower time_str)) 60 0 = Inr t1"
    using add_component_ok [OF len] by blast
  obtain t2 where t2: "add_component (re_search (CHR ''m'') (lower time_str)) 1 t1 = Inr t2"
    using add_component_ok [OF len] by blast
  obtain t3 where t3:
    "add_component (re_search (CHR ''d'') (lower time_str)) (24 * 60) t2 = Inr t3"
    using add_component_ok [OF len] by blast
  show ?thesis
    using t1 t2 t3 dec len
    by (auto simp: parse_time_string_def Let_def py_int_def isdigit_def)
qed

text \<open>
  C4. The claim: the parser is total, without an error path; every input resolves to a
  positive minute count or to no expiry, and an unparseable input gives no expiry. The
  docstring of \<open>parse_time_string\<close> says the same: it returns minutes or \<open>None\<close>. The
  code does not: for the one-character string U+00B2 (superscript two) no unit matches,
  \<open>isdigit\<close> holds, and \<open>int\<close> raises ValueError, which nothing in the function catches.
\<close>

theorem parse_time_string_superscript_raises:
  "parse_time_string [CHR 0xB2] = Inl ValueError"
  by code_simp

text \<open>The steps of that run: no unit is found, \<open>isdigit\<close> holds, \<open>int\<close> raises.\<close>

theorem parse_time_string_superscript_raises_witness:
  "lower [CHR 0xB2] = [CHR 0xB2]
 \<and> re_search (CHR ''h'') [CHR 0xB2] = None
 \<and> re_search (CHR ''m'') [CHR 0xB2] = None
 \<and> re_search (CHR ''d'') [CHR 0xB2] = None
 \<and> isdigit [CHR 0xB2]
 \<and> py_int [CHR 0xB2] = Inl ValueError
 \<and> parse_time_string [CHR 0xB2] \<noteq> Inr None
 \<and> (\<forall>n. parse_time_string [CHR 0xB2] \<noteq> Inr (Some n))"
  using parse_time_string_superscript_raises
  by (simp add: lower_def lower_char_def match_at_def is_decimal_def isdigit_def
        is_digit_char_def py_int_def)

section \<open>The ledger store: results\<close>

subsection \<open>Statements on a row that is there, or is not\<close>

lemma sql_update_user_absent: "us uid = None \<Longrightarrow> sql_update_user uid f us = us"
  by (simp add: sql_update_user_def)

lemma sql_update_user_present: "us uid = Some u \<Longrightarrow> sql_update_user uid f us = us(uid \<mapsto> f u)"
  by (simp add: sql_update_user_def)

lemma sql_update_credits_absent: "us uid = None \<Longrightarrow> sql_update_credits e uid f us = us"
  by (simp add: sql_update_credits_def update_last_active_trigger_def sql_update_user_def)

lemma sql_update_credits_present:
  "us uid = Some u \<Longrightarrow>
   sql_update_credits e uid f us = us(uid \<mapsto> (f u)\<lparr>last_active := sql_now e\<rparr>)"
  by (simp add: sql_update_credits_def update_last_active_trigger_def sql_update_user_def)

lemma sql_update_code_present: "cs c = Some r \<Longrightarrow> sql_update_code c f cs = cs(c \<mapsto> f r)"
  by (simp add: sql_update_code_def)

lemma already_claimed_iff:
  "already_claimed s u c \<longleftrightarrow> (\<exists>l \<in> set (redeem_logs s). log_user_id l = u \<and> log_code l = c)"
  by (simp add: already_claimed_def list_ex_iff)

subsection \<open>Sums\<close>


text \<open>A sum of integers is exact when it has 64 bits, and never otherwise.\<close>

lemma sql_add_exact: "int64 (i + d) \<Longrightarrow> sql_add e (SqlInteger i) d = SqlInteger (i + d)"
  by (simp add: sql_add_def)


text \<open>
  When the code takes a code for expired: the expiry is set and positive, the stored
  creation timestamp parses to a naive datetime, the sum is a datetime, and now is
  strictly later.
\<close>

lemma is_expired_iff:
  "is_expired e r \<longleftrightarrow>
     (\<exists>n created. expiry_minutes r = Some n \<and> n > 0 \<and>
        fromisoformat e (created_date r) = Some (Naive created) \<and>
        created + n * 60000000 \<le> datetime_max \<and> now_dt e > created + n * 60000000)"
  by (auto simp: is_expired_def check_expiry_def Let_def
           split: option.splits pydatetime.splits if_splits)

subsection \<open>Redeeming a code\<close>




text \<open>
  C8. In the expiry check of \<open>redeem_code_db\<close>, that is for a call that has passed the
  checks before it, on a code whose expiry is set and positive: when the stored creation
  timestamp does not parse, the check is skipped and the redemption takes the success
  step, all of it, as if the code never expired; and the outcome is \<open>expired\<close> only when
  the creation timestamp parses and creation plus expiry is not in the future (exactly
  when it parses to a naive datetime, the sum is a datetime, and now is later than the
  sum).
\<close>

theorem redeem_code_db_malformed_created_date:
  assumes "users s u = Some row"
    and "\<not> (\<exists>l \<in> set (redeem_logs s). log_user_id l = u \<and> log_code l = c)"
    and "redeem_codes s c = Some r"
    and "is_active r \<noteq> 0"
    and "current_uses r < max_uses r"
    and "expiry_minutes r = Some n"
    and "n > 0"
  shows "(fromisoformat e (created_date r) = None \<longrightarrow>
            redeem_code_db e u c s =
              (PyInt (amount r),
               s\<lparr>redeem_codes := (redeem_codes s)(c \<mapsto> r\<lparr>current_uses := current_uses r + 1\<rparr>),
                 users := (users s)(u \<mapsto>
                    row\<lparr>credits := sql_add e (credits row) (amount r),
                        total_earned := sql_add e (total_earned row) (amount r),
                        last_active := sql_now e\<rparr>),
                 redeem_logs := redeem_logs s @
                    [\<lparr>log_user_id = u, log_code = c, claimed_date = now_iso e\<rparr>]\<rparr>))
       \<and> (fst (redeem_code_db e u c s) = PyStr ''expired'' \<longleftrightarrow>
            (\<exists>created. fromisoformat e (created_date r) = Some (Naive created)
                \<and> created + n * 60000000 \<le> datetime_max
                \<and> created + n * 60000000 < now_dt e))
       \<and> (fst (redeem_code_db e u c s) = PyStr ''expired'' \<longrightarrow>
            (\<exists>created. fromisoformat e (created_date r) = Some (Naive created)
                \<and> created + n * 60000000 \<le> now_dt e))"
proof -
  have claimed: "\<not> already_claimed s u c"
    using assms(2) by (simp add: already_claimed_iff)
  have exp: "is_expired e r \<longleftrightarrow>
      (\<exists>created. fromisoformat e (created_date r) = Some (Naive created)
          \<and> created + n * 60000000 \<le> datetime_max
          \<and> created + n * 60000000 < now_dt e)"
    using assms(6,7) by (auto simp: is_expired_iff)
  have res: "redeem_code_db e u c s =
      (if is_expired e r then (PyStr ''expired'', s)
       else (PyInt (amount r),
             s\<lparr>redeem_codes := (redeem_codes s)(c \<mapsto> r\<lparr>current_uses := current_uses r + 1\<rparr>),
               users := (users s)(u \<mapsto> row\<lparr>credits := sql_add e (credits row) (amount r),
                                            total_earned := sql_add e (total_earned row) (amount r),
                                            last_active := sql_now e\<rparr>),
               redeem_logs := redeem_logs s @
                  [\<lparr>log_user_id = u, log_code = c, claimed_date = now_iso e\<rparr>]\<rparr>))"
    using assms(1,3,4,5) claimed
    by (simp add: redeem_code_db_def sql_update_credits_present sql_update_code_present)
  have a: "fromisoformat e (created_date r) = None \<Longrightarrow> \<not> is_expired e r"
    by (simp add: exp)
  show ?thesis
    using a exp by (auto simp: res)
qed

theorem redeem_code_db_malformed_created_date_witness:
  "users db_flash 1 = Some alice
 \<and> \<not> (\<exists>l \<in> set (redeem_logs db_flash). log_user_id l = 1 \<and> log_code l = ''FLASH'')
 \<and> redeem_codes db_flash ''FLASH'' = Some flash
 \<and> is_active flash \<noteq> 0 \<and> current_uses flash < max_uses flash
 \<and> expiry_minutes flash = Some 1 \<and> (0::int) < 1
 \<and> fromisoformat env0 (created_date flash) = None
 \<and> redeem_code_db env0 1 ''FLASH'' db_flash =
     (PyInt 4,
      db_flash\<lparr>redeem_codes := [''FLASH'' \<mapsto> flash\<lparr>current_uses := 1\<rparr>],
               users := [1 \<mapsto> alice\<lparr>credits := SqlInteger 9, total_earned := SqlInteger 4,
                                      last_active := ''0001-01-01 00:01:30''\<rparr>],
               redeem_logs := [\<lparr>log_user_id = 1, log_code = ''FLASH'',
                                claimed_date = ''0001-01-01T00:01:30''\<rparr>]\<rparr>)
 \<and> fst (redeem_code_db env0 1 ''FLASH'' db_flash) \<noteq> PyStr ''expired''"
proof -
  have sums: "sql_add env0 (SqlInteger 5) 4 = SqlInteger 9"
    "sql_add env0 (SqlInteger 0) 4 = SqlInteger 4"
    by (simp_all add: sql_add_exact int64_def)
  show ?thesis
    using sums redeem_code_db_malformed_created_date
          [where s = db_flash and u = 1 and row = alice and c = "''FLASH''" and r = flash
             and n = 1 and e = env0]
    by (simp add: db_flash_def empty_db_def flash_def alice_def)
       (simp add: env0_def)
qed

subsection \<open>Adjusting a balance\<close>




text \<open>
  C10, as the code has it. For an identity without a row in the users table,
  \<open>update_credits\<close> leaves the store as it was for every delta. When the identity and
  the delta are within the 64-bit range it returns \<open>True\<close>: the UPDATE matches no row,
  and that is not a failure, so a result of \<open>True\<close> does not say that a balance changed.
  When one of them is outside that range the UPDATE cannot bind it, and the function
  returns \<open>False\<close>.
\<close>

theorem update_credits_absent_user_returns_true:
  "(users s u = None \<and> int64 u \<and> int64 d \<longrightarrow> update_credits e u d s = (True, s))
 \<and> (\<not> (int64 u \<and> int64 d) \<longrightarrow> update_credits e u d s = (False, s))"
  by (simp add: update_credits_def credit_user_def Let_def sql_update_credits_absent)

theorem update_credits_absent_user_returns_true_witness:
  "users db_promo 2 = None \<and> int64 2 \<and> int64 7 \<and> int64 (- 7)
   \<and> update_credits env0 2 7 db_promo = (True, db_promo)
   \<and> update_credits env0 2 (- 7) db_promo = (True, db_promo)
   \<and> \<not> int64 (2 ^ 64) \<and> update_credits env0 2 (2 ^ 64) db_promo = (False, db_promo)"
  using update_credits_absent_user_returns_true [of db_promo 2 7 env0]
        update_credits_absent_user_returns_true [of db_promo 2 "- 7" env0]
        update_credits_absent_user_returns_true [of db_promo 2 "2 ^ 64" env0]
  by (simp add: db_promo_def empty_db_def int64_def)

text \<open>
  The claim as it is written fails for an identity or a delta outside the 64-bit range:
  the identity \<open>2^63\<close>, which a start link can carry as a referrer and which has no row,
  makes \<open>update_credits\<close> with the delta 3 return \<open>False\<close>, and so does the delta
  \<open>2^63\<close> for the absent identity 2.
\<close>

theorem update_credits_absent_out_of_range_counterexample:
  "users db_promo (2 ^ 63) = None
 \<and> update_credits env0 (2 ^ 63) 3 db_promo = (False, db_promo)
 \<and> users db_promo 2 = None
 \<and> update_credits env0 2 (2 ^ 63) db_promo = (False, db_promo)
 \<and> fst (update_credits env0 2 (2 ^ 63) db_promo) \<noteq> True"
  by (simp add: update_credits_def int64_def db_promo_def empty_db_def)

subsection \<open>Creating a code\<close>







subsection \<open>Registering a user\<close>




text \<open>
  The referrer 0. In a store where the identity 0 has a row with a balance of 5,
  registering user 9 with the referrer 0 leaves that balance at 5 and stores the
  referrer 0 on the new row: \<open>if referrer_id:\<close> is false for 0, although the comment
  above it reads "If referrer exists, give bonus to referrer".
\<close>

lemma add_user_referrer_zero:
  "users db_zero 9 = None
 \<and> users db_zero 0 = Some alice \<and> credits alice = SqlInteger 5
 \<and> fst (add_user env0 9 (Some ''carol'') (Some 0) db_zero) = True
 \<and> users (snd (add_user env0 9 (Some ''carol'') (Some 0) db_zero)) 0 = Some alice
 \<and> map_option referrer_id (users (snd (add_user env0 9 (Some ''carol'') (Some 0) db_zero)) 9)
     = Some (Some 0)"
  by (simp add: add_user_def db_zero_def empty_db_def alice_def Let_def int64_def)

subsection \<open>No user is their own referrer\<close>

lemma rows_no_self_referrer_update:
  assumes "rows_no_self_referrer us" and "\<And>row. referrer_id (f row) = referrer_id row"
  shows "rows_no_self_referrer (sql_update_user uid f us)"
  using assms
  by (auto simp: rows_no_self_referrer_def sql_update_user_def split: option.splits if_splits)

lemma rows_no_self_referrer_credits:
  assumes "rows_no_self_referrer us" and "\<And>row. referrer_id (f row) = referrer_id row"
  shows "rows_no_self_referrer (sql_update_credits e uid f us)"
  unfolding sql_update_credits_def update_last_active_trigger_def
  by (intro rows_no_self_referrer_update assms) simp

lemma rows_no_self_referrer_insert:
  "rows_no_self_referrer us \<Longrightarrow> referrer_id row \<noteq> Some u \<Longrightarrow>
   rows_no_self_referrer (us(u \<mapsto> row))"
  by (auto simp: rows_no_self_referrer_def)

lemma rows_no_self_referrer_delete:
  "rows_no_self_referrer us \<Longrightarrow> rows_no_self_referrer (us(u := None))"
  by (auto simp: rows_no_self_referrer_def)

lemma rows_no_self_referrer_credit_user:
  "rows_no_self_referrer us \<Longrightarrow> rows_no_self_referrer (credit_user e u a us)"
  by (simp add: credit_user_def Let_def rows_no_self_referrer_credits)

lemma rows_no_self_referrer_bulk:
  "rows_no_self_referrer us \<Longrightarrow>
   rows_no_self_referrer (foldl (\<lambda>us user_id. credit_user e user_id a us) us user_ids)"
  by (induction user_ids arbitrary: us) (simp_all add: rows_no_self_referrer_credit_user)

lemma no_self_referrer_add_user:
  assumes "no_self_referrer s" and "r \<noteq> Some u"
  shows "no_self_referrer (snd (add_user e u n r s))"
proof (cases "users s u = None")
  case False
  with assms show ?thesis by (simp add: add_user_def)
next
  case True
  have bonus: "rows_no_self_referrer
      (sql_update_credits e rid
         (\<lambda>row. row\<lparr>credits := sql_add e (credits row) 3,
                     total_earned := sql_add e (total_earned row) 3\<rparr>)
         (users s))" for rid
    using assms(1) by (simp add: no_self_referrer_def rows_no_self_referrer_credits)
  show ?thesis
    using True assms bonus
    by (auto simp: add_user_def Let_def no_self_referrer_def
             intro!: rows_no_self_referrer_insert split: option.splits)
qed

lemma no_self_referrer_update_credits:
  "no_self_referrer s \<Longrightarrow> no_self_referrer (snd (update_credits e u a s))"
  by (simp add: update_credits_def no_self_referrer_def rows_no_self_referrer_credit_user)

lemma no_self_referrer_redeem:
  "no_self_referrer s \<Longrightarrow> no_self_referrer (snd (redeem_code_db e u c s))"
  by (auto simp: redeem_code_db_def no_self_referrer_def rows_no_self_referrer_credits
           split: option.splits)

lemma no_self_referrer_add_admin:
  "no_self_referrer s \<Longrightarrow> no_self_referrer (snd (add_admin e u l s))"
  by (auto simp: add_admin_def Let_def no_self_referrer_def intro!: rows_no_self_referrer_insert)

lemma no_self_referrer_step:
  assumes "no_self_referrer s" and "\<not> self_referral p"
  shows "no_self_referrer (step e p s)"
proof (cases p)
  case (AddUser u n r)
  with assms show ?thesis by (simp add: no_self_referrer_add_user)
next
  case (UpdateCredits u a)
  with assms show ?thesis by (simp add: no_self_referrer_update_credits)
next
  case (BulkUpdateCredits us a)
  with assms show ?thesis
    by (simp add: bulk_update_credits_def no_self_referrer_def rows_no_self_referrer_bulk)
next
  case (SetBanStatus u b)
  with assms show ?thesis
    by (simp add: set_ban_status_def no_self_referrer_def rows_no_self_referrer_update)
next
  case (DeleteUser u)
  with assms show ?thesis
    by (simp add: delete_user_def no_self_referrer_def rows_no_self_referrer_delete)
next
  case (ResetUserCredits u)
  with assms show ?thesis
    by (simp add: reset_user_credits_def no_self_referrer_def rows_no_self_referrer_credits)
next
  case (UpdateLastActive u)
  with assms show ?thesis
    by (simp add: update_last_active_def no_self_referrer_def rows_no_self_referrer_update)
next
  case (AddAdmin u l)
  with assms show ?thesis by (simp add: no_self_referrer_add_admin)
next
  case (RemoveAdmin u)
  with assms show ?thesis by (simp add: remove_admin_def no_self_referrer_def)
next
  case (LogLookup u a i r)
  with assms show ?thesis by (simp add: log_lookup_def no_self_referrer_def)
next
  case (CreateRedeemCode c a m x)
  with assms show ?thesis by (simp add: create_redeem_code_def no_self_referrer_def)
next
  case (RedeemCode u c)
  with assms show ?thesis by (simp add: no_self_referrer_redeem)
next
  case (DeleteRedeemCode c)
  with assms show ?thesis by (simp add: delete_redeem_code_def no_self_referrer_def)
next
  case (DeactivateCode c)
  with assms show ?thesis by (simp add: deactivate_code_def no_self_referrer_def)
next
  case CleanupExpiredCodes
  with assms show ?thesis by (simp add: cleanup_expired_codes_def no_self_referrer_def)
qed

lemma no_self_referrer_run:
  "no_self_referrer s \<Longrightarrow> \<forall>(e, p) \<in> set ps. \<not> self_referral p \<Longrightarrow>
   no_self_referrer (run ps s)"
  by (induction ps arbitrary: s) (auto simp: no_self_referrer_step)

lemma no_self_referrer_start_register:
  assumes "no_self_referrer s"
  shows "no_self_referrer (start_register e u n r s)"
proof (cases "users s u = None")
  case False
  with assms show ?thesis by (simp add: start_register_def)
next
  case True
  let ?r = "if r = Some u then None else r"
  have "?r \<noteq> Some u" by simp
  then have added: "no_self_referrer (snd (add_user e u n ?r s))"
    using assms by (rule no_self_referrer_add_user [rotated])
  show ?thesis
    using True added
    by (auto simp: start_register_def Let_def no_self_referrer_update_credits
             split: option.splits)
qed

text \<open>
  C3, as the code has it. \<open>add_user\<close> keeps the invariant that no user is their own
  referrer whenever it is called with no referrer or with a referrer other than the new
  identity, and so does every other writing operation of the store; every history
  without a self-referring \<open>add_user\<close> call, started on the empty store, ends in a
  store without a self-referrer. The guard against a referrer equal to the new identity
  is in the caller: the registration path of \<open>start_command\<close> drops such a referrer
  before it calls \<open>add_user\<close>, and keeps the invariant for every start link.
\<close>

theorem no_self_referrer_preserved:
  "(no_self_referrer s \<and> r \<noteq> Some u \<longrightarrow> no_self_referrer (snd (add_user e u n r s)))
 \<and> (no_self_referrer s \<and> \<not> self_referral p \<longrightarrow> no_self_referrer (step e p s))
 \<and> ((\<forall>(e, p) \<in> set ps. \<not> self_referral p) \<longrightarrow> no_self_referrer (run ps empty_db))
 \<and> (no_self_referrer s \<longrightarrow> no_self_referrer (start_register e u n r s))"
proof -
  have "no_self_referrer empty_db"
    by (simp add: no_self_referrer_def rows_no_self_referrer_def empty_db_def)
  then show ?thesis
    using no_self_referrer_add_user no_self_referrer_step no_self_referrer_run
      no_self_referrer_start_register
    by blast
qed

theorem no_self_referrer_preserved_witness:
  "no_self_referrer db_promo \<and> Some 1 \<noteq> Some (2::int)
 \<and> no_self_referrer (snd (add_user env0 2 (Some ''bob'') (Some 1) db_promo))
 \<and> \<not> self_referral (AddUser 2 (Some ''bob'') (Some 1))
 \<and> no_self_referrer (step env0 (AddUser 2 (Some ''bob'') (Some 1)) db_promo)
 \<and> no_self_referrer (run [(env0, AddUser 1 (Some ''alice'') None),
                           (env0, AddUser 2 (Some ''bob'') (Some 1))] empty_db)
 \<and> no_self_referrer (start_register env0 2 (Some ''bob'') (Some 2) db_promo)
 \<and> map_option referrer_id (users (start_register env0 2 (Some ''bob'') (Some 2) db_promo) 2)
     = Some None"
proof -
  have inv: "no_self_referrer db_promo"
    by (simp add: no_self_referrer_def rows_no_self_referrer_def db_promo_def empty_db_def
          alice_def)
  have other: "Some 1 \<noteq> Some (2::int)" and ok: "\<not> self_referral (AddUser 2 (Some ''bob'') (Some 1))"
    by simp_all
  have hist: "\<forall>(e, p) \<in> set [(env0, AddUser 1 (Some ''alice'') None),
                              (env0, AddUser 2 (Some ''bob'') (Some 1))]. \<not> self_referral p"
    by simp
  have dropped:
    "map_option referrer_id (users (start_register env0 2 (Some ''bob'') (Some 2) db_promo) 2)
       = Some None"
    by (simp add: start_register_def add_user_def Let_def db_promo_def empty_db_def int64_def)
  show ?thesis
    using inv other ok hist dropped
      no_self_referrer_preserved
        [where s = db_promo and r = "Some 1" and u = 2 and e = env0 and n = "Some ''bob''"
           and p = "AddUser 2 (Some ''bob'') (Some 1)"
           and ps = "[(env0, AddUser 1 (Some ''alice'') None),
                      (env0, AddUser 2 (Some ''bob'') (Some 1))]"]
      no_self_referrer_preserved
        [where s = db_promo and r = "Some 2" and u = 2 and e = env0 and n = "Some ''bob''"]
    by blast
qed

text \<open>
  The claim as it is written fails: \<open>add_user\<close>, called for the fresh identity 7 with
  the referrer 7, does not find the referrer, pays no bonus, and stores the row with 7
  as its own referrer.
\<close>

theorem add_user_self_referrer_counterexample:
  "no_self_referrer empty_db
 \<and> users empty_db 7 = None
 \<and> fst (add_user env0 7 (Some ''eve'') (Some 7) empty_db) = True
 \<and> map_option referrer_id (users (snd (add_user env0 7 (Some ''eve'') (Some 7) empty_db)) 7)
     = Some (Some 7)
 \<and> \<not> no_self_referrer (snd (add_user env0 7 (Some ''eve'') (Some 7) empty_db))"
  by (auto simp: add_user_def Let_def empty_db_def no_self_referrer_def
        rows_no_self_referrer_def sql_update_credits_absent int64_def)

subsection \<open>The use count never passes the maximum\<close>

lemma rows_uses_bounded_flag:
  assumes "rows_uses_bounded cs"
    and "\<And>r. current_uses (f r) = current_uses r \<and> max_uses (f r) = max_uses r"
  shows "rows_uses_bounded (\<lambda>c. map_option f (cs c))"
  using assms by (auto simp: rows_uses_bounded_def)

lemma rows_uses_bounded_update:
  assumes "rows_uses_bounded cs"
    and "\<And>r. cs c = Some r \<Longrightarrow> current_uses (f r) \<le> max_uses (f r)"
  shows "rows_uses_bounded (sql_update_code c f cs)"
  using assms
  by (auto simp: rows_uses_bounded_def sql_update_code_def split: option.splits if_splits)

lemma rows_uses_bounded_delete: "rows_uses_bounded cs \<Longrightarrow> rows_uses_bounded (cs(c := None))"
  by (auto simp: rows_uses_bounded_def)

lemma uses_bounded_create:
  "uses_bounded s \<Longrightarrow> uses_bounded (snd (create_redeem_code e c a m x s))"
  by (auto simp: create_redeem_code_def cleanup_expired_codes_trigger_def uses_bounded_def
        rows_uses_bounded_def split: if_splits)

lemma uses_bounded_redeem:
  "uses_bounded s \<Longrightarrow> uses_bounded (snd (redeem_code_db e u c s))"
  unfolding redeem_code_db_def uses_bounded_def
  by (auto intro!: rows_uses_bounded_update split: option.splits)

lemma uses_bounded_deactivate:
  "uses_bounded s \<Longrightarrow> uses_bounded (snd (deactivate_code c s))"
  by (auto simp: deactivate_code_def uses_bounded_def rows_uses_bounded_def sql_update_code_def
        split: option.splits if_splits)

lemma uses_bounded_cleanup:
  "uses_bounded s \<Longrightarrow> uses_bounded (cleanup_expired_codes e s)"
  unfolding cleanup_expired_codes_def uses_bounded_def
  by (auto intro!: rows_uses_bounded_flag)

lemma add_user_codes: "redeem_codes (snd (add_user e u n r s)) = redeem_codes s"
  by (auto simp: add_user_def Let_def split: option.splits)

lemma uses_bounded_step: "uses_bounded s \<Longrightarrow> uses_bounded (step e p s)"
proof (cases p)
  case (AddUser u n r)
  assume "uses_bounded s"
  with AddUser show ?thesis by (simp add: uses_bounded_def add_user_codes)
next
  case (CreateRedeemCode c a m x)
  assume "uses_bounded s"
  with CreateRedeemCode show ?thesis by (simp add: uses_bounded_create)
next
  case (RedeemCode u c)
  assume "uses_bounded s"
  with RedeemCode show ?thesis by (simp add: uses_bounded_redeem)
next
  case (DeleteRedeemCode c)
  assume "uses_bounded s"
  with DeleteRedeemCode show ?thesis
    by (simp add: delete_redeem_code_def uses_bounded_def rows_uses_bounded_delete)
next
  case (DeactivateCode c)
  assume "uses_bounded s"
  with DeactivateCode show ?thesis by (simp add: uses_bounded_deactivate)
next
  case CleanupExpiredCodes
  assume "uses_bounded s"
  with CleanupExpiredCodes show ?thesis by (simp add: uses_bounded_cleanup)
qed (simp_all add: uses_bounded_def Let_def update_credits_def
       bulk_update_credits_def set_ban_status_def delete_user_def reset_user_credits_def
       update_last_active_def add_admin_def remove_admin_def log_lookup_def)

lemma uses_bounded_run: "uses_bounded s \<Longrightarrow> uses_bounded (run ps s)"
  by (induction ps arbitrary: s) (auto simp: uses_bounded_step)

lemma redeem_at_limit_unchanged:
  assumes "redeem_codes s c = Some r" and "max_uses r \<le> current_uses r"
  shows "snd (redeem_code_db e u c s) = s \<and> (\<forall>a. fst (redeem_code_db e u c s) \<noteq> PyInt a)"
  using assms by (simp add: redeem_code_db_def)

lemma redeem_success_increment:
  assumes "fst (redeem_code_db e u c s) = PyInt a" and "redeem_codes s c = Some r"
  shows "redeem_codes (snd (redeem_code_db e u c s)) c
           = Some (r\<lparr>current_uses := current_uses r + 1\<rparr>)
       \<and> current_uses r + 1 \<le> max_uses r
       \<and> (\<forall>c'. c' \<noteq> c \<longrightarrow> redeem_codes (snd (redeem_code_db e u c s)) c' = redeem_codes s c')"
  using assms
  by (auto simp: redeem_code_db_def sql_update_code_present split: if_splits)

text \<open>
  C2, as the code has it. Every writing operation of the store keeps the invariant that
  no code's current use count exceeds its maximum, and every history from the empty
  store ends in a store that has it: a row that \<open>create_redeem_code\<close> inserts has a
  count of 0; a call of
  \<open>redeem_code_db\<close> on a code whose count has reached the maximum never succeeds and
  changes nothing, and it returns \<open>limit_reached\<close> when the checks before the ceiling
  pass (the user exists, has not claimed the code, and the code is active) and the
  outcome of the first of those checks that fails when one does; and a
  successful redemption adds exactly 1 to the count of its code, which was below the
  maximum, and leaves the other codes alone.
\<close>

theorem uses_bounded_preserved:
  "(uses_bounded s \<longrightarrow> uses_bounded (step e p s))
 \<and> uses_bounded (run ps empty_db)
 \<and> (redeem_codes s c = Some r \<and> current_uses r \<ge> max_uses r \<longrightarrow>
       snd (redeem_code_db e u c s) = s \<and> (\<forall>a. fst (redeem_code_db e u c s) \<noteq> PyInt a))
 \<and> (redeem_codes s c = Some r \<and> current_uses r \<ge> max_uses r
      \<and> users s u \<noteq> None
      \<and> \<not> (\<exists>l \<in> set (redeem_logs s). log_user_id l = u \<and> log_code l = c)
      \<and> is_active r \<noteq> 0 \<longrightarrow>
       redeem_code_db e u c s = (PyStr ''limit_reached'', s))
 \<and> (fst (redeem_code_db e u c s) = PyInt a \<and> redeem_codes s c = Some r \<longrightarrow>
       redeem_codes (snd (redeem_code_db e u c s)) c
         = Some (r\<lparr>current_uses := current_uses r + 1\<rparr>)
       \<and> current_uses r + 1 \<le> max_uses r
       \<and> (\<forall>c'. c' \<noteq> c \<longrightarrow> redeem_codes (snd (redeem_code_db e u c s)) c' = redeem_codes s c'))
 \<and> (redeem_codes s c = None
      \<and> redeem_codes (snd (create_redeem_code e c a m x s)) c = Some r' \<longrightarrow>
       current_uses r' = 0)
 \<and> (users s u = None \<and> int64 u \<longrightarrow>
       redeem_code_db e u c s = (PyStr ''user_not_found'', s))
 \<and> (users s u \<noteq> None
      \<and> (\<exists>l \<in> set (redeem_logs s). log_user_id l = u \<and> log_code l = c) \<longrightarrow>
       redeem_code_db e u c s = (PyStr ''already_claimed'', s))
 \<and> (users s u \<noteq> None
      \<and> \<not> (\<exists>l \<in> set (redeem_logs s). log_user_id l = u \<and> log_code l = c)
      \<and> redeem_codes s c = Some r \<and> is_active r = 0 \<longrightarrow>
       redeem_code_db e u c s = (PyStr ''inactive'', s))"
proof -
  have start: "uses_bounded empty_db"
    by (simp add: uses_bounded_def rows_uses_bounded_def empty_db_def)
  have limit: "redeem_code_db e u c s = (PyStr ''limit_reached'', s)"
    if "redeem_codes s c = Some r" "current_uses r \<ge> max_uses r" "users s u \<noteq> None"
       "\<not> (\<exists>l \<in> set (redeem_logs s). log_user_id l = u \<and> log_code l = c)" "is_active r \<noteq> 0"
    using that by (simp add: redeem_code_db_def already_claimed_iff)
  have fresh: "current_uses r' = 0"
    if "redeem_codes s c = None" "redeem_codes (snd (create_redeem_code e c a m x s)) c = Some r'"
    using that
    by (auto simp: create_redeem_code_def cleanup_expired_codes_trigger_def split: if_splits)
  have absent: "redeem_code_db e u c s = (PyStr ''user_not_found'', s)"
    if "users s u = None" "int64 u"
    using that by (simp add: redeem_code_db_def)
  have claimed: "redeem_code_db e u c s = (PyStr ''already_claimed'', s)"
    if "users s u \<noteq> None" "\<exists>l \<in> set (redeem_logs s). log_user_id l = u \<and> log_code l = c"
    using that by (simp add: redeem_code_db_def already_claimed_iff)
  have inactive: "redeem_code_db e u c s = (PyStr ''inactive'', s)"
    if "users s u \<noteq> None"
       "\<not> (\<exists>l \<in> set (redeem_logs s). log_user_id l = u \<and> log_code l = c)"
       "redeem_codes s c = Some r" "is_active r = 0"
    using that by (simp add: redeem_code_db_def already_claimed_iff)
  show ?thesis
    using uses_bounded_step [of s e p] uses_bounded_run [OF start, of ps]
      redeem_at_limit_unchanged [of s c r e u] redeem_success_increment [of e u c s a r]
      limit fresh absent claimed inactive
    by blast
qed

theorem uses_bounded_preserved_witness:
  "uses_bounded db_spent
 \<and> uses_bounded (step env0 (RedeemCode 2 ''ONCE'') db_spent)
 \<and> redeem_codes db_spent ''ONCE'' = Some spent \<and> current_uses spent \<ge> max_uses spent
 \<and> users db_spent 2 \<noteq> None
 \<and> \<not> (\<exists>l \<in> set (redeem_logs db_spent). log_user_id l = 2 \<and> log_code l = ''ONCE'')
 \<and> is_active spent \<noteq> 0
 \<and> redeem_code_db env0 2 ''ONCE'' db_spent = (PyStr ''limit_reached'', db_spent)
 \<and> fst (redeem_code_db env0 1 ''PROMO'' db_promo) = PyInt 10
 \<and> redeem_codes db_promo ''PROMO'' = Some promo
 \<and> redeem_codes (snd (redeem_code_db env0 1 ''PROMO'' db_promo)) ''PROMO''
     = Some (promo\<lparr>current_uses := 1\<rparr>)
 \<and> uses_bounded (run [(env0, AddUser 1 (Some ''alice'') None),
                       (env0, CreateRedeemCode ''ONCE'' 10 1 None),
                       (env0, RedeemCode 1 ''ONCE''),
                       (env0, AddUser 2 (Some ''bob'') (Some 1)),
                       (env0, RedeemCode 2 ''ONCE'')] empty_db)"
proof -
  have inv: "uses_bounded db_spent"
    by (simp add: uses_bounded_def rows_uses_bounded_def db_spent_def empty_db_def spent_def)
  have row: "redeem_codes db_spent ''ONCE'' = Some spent" "current_uses spent \<ge> max_uses spent"
    "users db_spent 2 \<noteq> None" "is_active spent \<noteq> 0"
    "\<not> (\<exists>l \<in> set (redeem_logs db_spent). log_user_id l = 2 \<and> log_code l = ''ONCE'')"
    by (simp_all add: db_spent_def empty_db_def spent_def)
  have ok: "fst (redeem_code_db env0 1 ''PROMO'' db_promo) = PyInt 10"
    "redeem_codes db_promo ''PROMO'' = Some promo"
    by (simp_all add: redeem_code_db_def db_promo_def empty_db_def promo_def already_claimed_def
          is_expired_def)
  note t1 = uses_bounded_preserved
    [where s = db_spent and e = env0 and p = "RedeemCode 2 ''ONCE''" and c = "''ONCE''"
       and r = spent and u = 2
       and ps = "[(env0, AddUser 1 (Some ''alice'') None),
                  (env0, CreateRedeemCode ''ONCE'' 10 1 None),
                  (env0, RedeemCode 1 ''ONCE''),
                  (env0, AddUser 2 (Some ''bob'') (Some 1)),
                  (env0, RedeemCode 2 ''ONCE'')]"]
  note t2 = uses_bounded_preserved
    [where s = db_promo and e = env0 and c = "''PROMO''" and r = promo and u = 1 and a = 10]
  have incr: "redeem_codes (snd (redeem_code_db env0 1 ''PROMO'' db_promo)) ''PROMO''
     = Some (promo\<lparr>current_uses := current_uses promo + 1\<rparr>)"
    using t2 ok by blast
  have one: "current_uses promo + 1 = 1"
    by (simp add: promo_def)
  show ?thesis
    using inv row ok t1 incr one by simp
qed

text \<open>
  The claim as it is written fails: it gives \<open>limit_reached\<close> to every call on a code
  whose count has reached the maximum. The checks before the ceiling come first: user
  1, who has claimed the exhausted code, gets \<open>already_claimed\<close>.
\<close>

theorem redeem_at_limit_counterexample:
  "redeem_codes db_spent ''ONCE'' = Some spent
 \<and> current_uses spent \<ge> max_uses spent
 \<and> redeem_code_db env0 1 ''ONCE'' db_spent = (PyStr ''already_claimed'', db_spent)
 \<and> fst (redeem_code_db env0 1 ''ONCE'' db_spent) \<noteq> PyStr ''limit_reached''"
  by (simp add: redeem_code_db_def already_claimed_def db_spent_def empty_db_def spent_def)

end
